theory Spec2Isabelle
  imports Main "HOL-Library.Word"
begin

section \<open>The packfile decoder of go-git\<close>

text \<open>
  A shallow embedding of \<^verbatim>\<open>plumbing/format/packfile/decoder.go\<close> (the file
  \<^verbatim>\<open>src/unnamed/part_000\<close>). The decoder is a Go struct mutated in place; here every
  method takes the decoder and returns it updated. The Scanner, the object store with
  its transactions, the object's hash and the delta applier are collaborators whose
  code is not part of the decoder: they are the fields of an environment record the
  decoder's functions are parametrised with, so every theorem holds for all of them.
\<close>

subsection \<open>Data\<close>

type_synonym byte = "8 word"

text \<open>\<^verbatim>\<open>plumbing.Hash\<close> is \<^verbatim>\<open>[20]byte\<close>; offsets are \<^verbatim>\<open>int64\<close>, CRCs \<^verbatim>\<open>uint32\<close>.
  The decoder does no arithmetic on any of them.\<close>

type_synonym Hash = "byte list"
type_synonym offset = "64 word"
type_synonym crc32 = "32 word"

definition ZeroHash :: Hash where
  "ZeroHash = replicate 20 0"

datatype ObjectType =
    InvalidObject | CommitObject | TreeObject | BlobObject | TagObject
  | OFSDeltaObject | REFDeltaObject | AnyObject

text \<open>The error variables of the decoder's \<^verbatim>\<open>var\<close> block, \<^verbatim>\<open>plumbing.ErrObjectNotFound\<close>,
  and the errors of the collaborators, which the decoder passes on unread
  (\<open>ErrExternal\<close> with their message). \<^verbatim>\<open>AddDetails\<close> attaches a formatted detail
  string to a copy of the error.\<close>

datatype error =
    ErrMaxObjectsLimitReached
  | ErrInvalidObject string
  | ErrPackEntryNotFound
  | ErrZLib
  | ErrCannotRecall
  | ErrNonSeekable
  | ErrRollback string
  | ErrObjectNotFound
  | ErrExternal string

text \<open>A call returns a value, returns an error, or panics: calling a method on a nil
  interface value is a run-time panic in Go.\<close>

datatype 'a res = Ok 'a | Error error | Panic

fun ObjectType_String :: "ObjectType \<Rightarrow> string" where
  "ObjectType_String InvalidObject = ''invalid-object''"
| "ObjectType_String CommitObject = ''commit''"
| "ObjectType_String TreeObject = ''tree''"
| "ObjectType_String BlobObject = ''blob''"
| "ObjectType_String TagObject = ''tag''"
| "ObjectType_String OFSDeltaObject = ''ofs-delta''"
| "ObjectType_String REFDeltaObject = ''ref-delta''"
| "ObjectType_String AnyObject = ''any''"

text \<open>Modelled from the spec: the \<^verbatim>\<open>Error\<close> method of the package's error type is not
  in the source at hand. An error reads as its reason, followed by its details when it
  has some ("each carries a human-readable detail string").\<close>

fun Error_String :: "error \<Rightarrow> string" where
  "Error_String ErrMaxObjectsLimitReached = ''max. objects limit reached''"
| "Error_String (ErrInvalidObject details) = ''invalid git object: '' @ details"
| "Error_String ErrPackEntryNotFound = ''can't find a pack entry''"
| "Error_String ErrZLib = ''zlib reading error''"
| "Error_String ErrCannotRecall = ''cannot recall object''"
| "Error_String ErrNonSeekable = ''non-seekable scanner''"
| "Error_String (ErrRollback details) = ''rollback error, during set error: '' @ details"
| "Error_String ErrObjectNotFound = ''object not found''"
| "Error_String (ErrExternal m) = m"

text \<open>\<^verbatim>\<open>plumbing.Object\<close>, as the decoder uses it: a type, a declared size and a payload.\<close>

record Object =
  Type :: ObjectType
  Size :: int
  Content :: "byte list"

definition MemoryObject :: Object where
  "MemoryObject = \<lparr>Type = InvalidObject, Size = 0, Content = []\<rparr>"

text \<open>The header the Scanner yields for each object. The source's field is \<^verbatim>\<open>Type\<close>,
  a name the object's own type already has here.\<close>

record ObjectHeader =
  HType :: ObjectType
  Offset :: offset
  Length :: int
  Reference :: Hash
  OffsetReference :: offset

subsection \<open>The collaborators\<close>

text \<open>
  \<open>'s\<close> is the state of the Scanner, \<open>'st\<close> the state of the object store, \<open>'t\<close> a
  transaction handle. Each method takes the state it acts on and returns it changed.
  \<^verbatim>\<open>IsSeekable\<close> is a field of the Scanner that the decoder only reads.
  \<open>isTransactioner\<close> says whether the store's dynamic type implements
  \<^verbatim>\<open>storer.Transactioner\<close>. \<open>NextObject\<close> returns the bytes it wrote to its writer.
\<close>

record ('s, 'st, 't) env =
  IsSeekable :: bool
  Header :: "'s \<Rightarrow> (error + nat \<times> 32 word) \<times> 's"
  NextObjectHeader :: "'s \<Rightarrow> (error + ObjectHeader) \<times> 's"
  NextObject :: "'s \<Rightarrow> (error + byte list \<times> crc32) \<times> 's"
  Seek :: "offset \<Rightarrow> 's \<Rightarrow> (error + offset) \<times> 's"
  Checksum :: "'s \<Rightarrow> (error + Hash) \<times> 's"
  NewObject :: "'st \<Rightarrow> Object \<times> 'st"
  SetObject :: "Object \<Rightarrow> 'st \<Rightarrow> (error + Hash) \<times> 'st"
  isTransactioner :: bool
  Begin :: "'st \<Rightarrow> 't \<times> 'st"
  txSetObject :: "'t \<Rightarrow> Object \<Rightarrow> 'st \<Rightarrow> (error + Hash) \<times> 'st"
  txObject :: "'t \<Rightarrow> ObjectType \<Rightarrow> Hash \<Rightarrow> 'st \<Rightarrow> (error + Object) \<times> 'st"
  txCommit :: "'t \<Rightarrow> 'st \<Rightarrow> error option \<times> 'st"
  txRollback :: "'t \<Rightarrow> 'st \<Rightarrow> error option \<times> 'st"
  Writer :: "Object \<Rightarrow> error option"
  HashOf :: "Object \<Rightarrow> Hash"
  ApplyDelta :: "Object \<Rightarrow> Object \<Rightarrow> byte list \<Rightarrow> error + Object"

subsection \<open>The decoder\<close>

text \<open>The struct \<^verbatim>\<open>Decoder\<close>. Its fields \<^verbatim>\<open>s\<close>, \<^verbatim>\<open>o\<close> and \<^verbatim>\<open>tx\<close> are \<open>d_s\<close>, \<open>d_o\<close>
  and \<open>d_tx\<close>; a nil store and a nil transaction are \<open>None\<close>.\<close>

record ('s, 'st, 't) Decoder =
  d_s :: 's
  d_o :: "'st option"
  d_tx :: "'t option"
  offsetToHash :: "offset \<rightharpoonup> Hash"
  hashToOffset :: "Hash \<rightharpoonup> offset"
  crcs :: "Hash \<rightharpoonup> crc32"

definition NewDecoder ::
  "('s, 'st, 't) env \<Rightarrow> 's \<Rightarrow> 'st option \<Rightarrow> error + ('s, 'st, 't) Decoder" where
  "NewDecoder E s0 o0 =
     (if \<not> IsSeekable E \<and> o0 = None then Inl ErrNonSeekable
      else Inr \<lparr>d_s = s0, d_o = o0, d_tx = None,
                offsetToHash = Map.empty, hashToOffset = Map.empty, crcs = Map.empty\<rparr>)"

definition setOffset ::
  "('s, 'st, 't) Decoder \<Rightarrow> Hash \<Rightarrow> offset \<Rightarrow> ('s, 'st, 't) Decoder" where
  "setOffset d h off =
     d\<lparr>offsetToHash := (offsetToHash d)(off \<mapsto> h),
       hashToOffset := (hashToOffset d)(h \<mapsto> off)\<rparr>"

definition setCRC ::
  "('s, 'st, 't) Decoder \<Rightarrow> Hash \<Rightarrow> crc32 \<Rightarrow> ('s, 'st, 't) Decoder" where
  "setCRC d h crc = d\<lparr>crcs := (crcs d)(h \<mapsto> crc)\<rparr>"

definition SetOffsets ::
  "('s, 'st, 't) Decoder \<Rightarrow> (Hash \<rightharpoonup> offset) \<Rightarrow> ('s, 'st, 't) Decoder" where
  "SetOffsets d offsets = d\<lparr>hashToOffset := offsets\<rparr>"

definition Offsets :: "('s, 'st, 't) Decoder \<Rightarrow> (Hash \<rightharpoonup> offset)" where
  "Offsets d = hashToOffset d"

definition CRCs :: "('s, 'st, 't) Decoder \<Rightarrow> (Hash \<rightharpoonup> crc32)" where
  "CRCs d = crcs d"

definition newObject ::
  "('s, 'st, 't) env \<Rightarrow> ('s, 'st, 't) Decoder \<Rightarrow> Object \<times> ('s, 'st, 't) Decoder" where
  "newObject E d =
     (case d_o d of
        None \<Rightarrow> (MemoryObject, d)
      | Some st \<Rightarrow> (case NewObject E st of (obj, st') \<Rightarrow> (obj, d\<lparr>d_o := Some st'\<rparr>)))"

definition fillRegularObjectContent ::
  "('s, 'st, 't) env \<Rightarrow> ('s, 'st, 't) Decoder \<Rightarrow> Object
     \<Rightarrow> (Object \<times> crc32) res \<times> ('s, 'st, 't) Decoder" where
  "fillRegularObjectContent E d obj =
     (case Writer E obj of
        Some err \<Rightarrow> (Error err, d)
      | None \<Rightarrow>
          (case NextObject E (d_s d) of
             (Inl err, s1) \<Rightarrow> (Error err, d\<lparr>d_s := s1\<rparr>)
           | (Inr (body, crc), s1) \<Rightarrow> (Ok (obj\<lparr>Content := body\<rparr>, crc), d\<lparr>d_s := s1\<rparr>)))"

text \<open>
  The calls on \<^verbatim>\<open>d.tx\<close>: with a nil \<^verbatim>\<open>d.tx\<close> they panic.
\<close>

definition d_tx_Object ::
  "('s, 'st, 't) env \<Rightarrow> ('s, 'st, 't) Decoder \<Rightarrow> ObjectType \<Rightarrow> Hash
     \<Rightarrow> Object res \<times> ('s, 'st, 't) Decoder" where
  "d_tx_Object E d t h =
     (case d_tx d of
        None \<Rightarrow> (Panic, d)
      | Some tx \<Rightarrow>
          (case d_o d of
             None \<Rightarrow> (Panic, d)
           | Some st \<Rightarrow>
               (case txObject E tx t h st of
                  (Inl err, st') \<Rightarrow> (Error err, d\<lparr>d_o := Some st'\<rparr>)
                | (Inr obj, st') \<Rightarrow> (Ok obj, d\<lparr>d_o := Some st'\<rparr>))))"

text \<open>
  \<^verbatim>\<open>ReadObject\<close> and the functions it calls are mutually recursive: a delta's base is
  read by \<^verbatim>\<open>ReadObjectAt\<close>, which calls \<^verbatim>\<open>ReadObject\<close>, and nothing in the code bounds
  the chain. The recursion is on fuel, the number of nested \<^verbatim>\<open>ReadObject\<close> calls
  allowed; \<open>None\<close> is a run that needs more. Each function of the cycle is first written
  with the \<^verbatim>\<open>ReadObject\<close> it calls as its argument \<open>ro\<close> (the definitions \<open>_in\<close>);
  the recursion then closes the cycle, and the lemmas of the next subsection give every
  function the equation it has in the source.

  \<^verbatim>\<open>ReadObjectAt\<close> has unnamed results: \<^verbatim>\<open>return d.ReadObject()\<close> fixes the returned
  pair before the deferred function runs, and the \<^verbatim>\<open>err\<close> the deferred function
  assigns is the local variable of the first \<^verbatim>\<open>Seek\<close>. The deferred \<^verbatim>\<open>Seek\<close> changes
  the Scanner; its error \<open>seekErr\<close> reaches no one.

  When \<^verbatim>\<open>ReadObject\<close> returns an error it also returns the object it was filling;
  no caller in the decoder reads it, and the model returns the error alone.
\<close>

type_synonym ('s, 'st, 't) reader =
  "('s, 'st, 't) Decoder \<Rightarrow> (Object res \<times> ('s, 'st, 't) Decoder) option"

definition ReadObjectAt_in ::
  "('s, 'st, 't) env \<Rightarrow> ('s, 'st, 't) reader \<Rightarrow> offset \<Rightarrow> ('s, 'st, 't) reader" where
  "ReadObjectAt_in E ro off d =
     (if \<not> IsSeekable E then Some (Error ErrNonSeekable, d)
      else
        (case Seek E off (d_s d) of
           (Inl err, s1) \<Rightarrow> Some (Error err, d\<lparr>d_s := s1\<rparr>)
         | (Inr beforeJump, s1) \<Rightarrow>
             (case ro (d\<lparr>d_s := s1\<rparr>) of
                None \<Rightarrow> None
              | Some (r, d1) \<Rightarrow>
                  (case Seek E beforeJump (d_s d1) of
                     (seekErr, s2) \<Rightarrow> Some (r, d1\<lparr>d_s := s2\<rparr>)))))"

definition recallByOffset_in ::
  "('s, 'st, 't) env \<Rightarrow> ('s, 'st, 't) reader \<Rightarrow> offset \<Rightarrow> ('s, 'st, 't) reader" where
  "recallByOffset_in E ro off d =
     (if IsSeekable E then ReadObjectAt_in E ro off d
      else
        (case offsetToHash d off of
           Some h \<Rightarrow> Some (d_tx_Object E d AnyObject h)
         | None \<Rightarrow> Some (Error ErrObjectNotFound, d)))"

definition recallByHash_in ::
  "('s, 'st, 't) env \<Rightarrow> ('s, 'st, 't) reader \<Rightarrow> Hash \<Rightarrow> ('s, 'st, 't) reader" where
  "recallByHash_in E ro h d =
     (case (if IsSeekable E then hashToOffset d h else None) of
        Some off \<Rightarrow> ReadObjectAt_in E ro off d
      | None \<Rightarrow>
          (case d_tx_Object E d AnyObject h of
             (Error err, d1) \<Rightarrow>
               (if err \<noteq> ErrObjectNotFound then Some (Error err, d1)
                else Some (Error ErrObjectNotFound, d1))
           | (r, d1) \<Rightarrow> Some (r, d1)))"

text \<open>The two delta fillers end alike: the type of the base, then \<^verbatim>\<open>ApplyDelta\<close>.\<close>

definition applyToBase ::
  "('s, 'st, 't) env \<Rightarrow> Object \<Rightarrow> byte list \<Rightarrow> crc32
     \<Rightarrow> (Object res \<times> ('s, 'st, 't) Decoder) option
     \<Rightarrow> ((Object \<times> crc32) res \<times> ('s, 'st, 't) Decoder) option" where
  "applyToBase E obj buf crc recalled =
     (case recalled of
        None \<Rightarrow> None
      | Some (Panic, d1) \<Rightarrow> Some (Panic, d1)
      | Some (Error err, d1) \<Rightarrow> Some (Error err, d1)
      | Some (Ok base, d1) \<Rightarrow>
          (case ApplyDelta E (obj\<lparr>Type := Type base\<rparr>) base buf of
             Inl err \<Rightarrow> Some (Error err, d1)
           | Inr obj' \<Rightarrow> Some (Ok (obj', crc), d1)))"

definition fillREFDeltaObjectContent_in ::
  "('s, 'st, 't) env \<Rightarrow> ('s, 'st, 't) reader \<Rightarrow> ('s, 'st, 't) Decoder \<Rightarrow> Object \<Rightarrow> Hash
     \<Rightarrow> ((Object \<times> crc32) res \<times> ('s, 'st, 't) Decoder) option" where
  "fillREFDeltaObjectContent_in E ro d obj ref =
     (case NextObject E (d_s d) of
        (Inl err, s1) \<Rightarrow> Some (Error err, d\<lparr>d_s := s1\<rparr>)
      | (Inr (buf, crc), s1) \<Rightarrow>
          applyToBase E obj buf crc (recallByHash_in E ro ref (d\<lparr>d_s := s1\<rparr>)))"

definition fillOFSDeltaObjectContent_in ::
  "('s, 'st, 't) env \<Rightarrow> ('s, 'st, 't) reader \<Rightarrow> ('s, 'st, 't) Decoder \<Rightarrow> Object \<Rightarrow> offset
     \<Rightarrow> ((Object \<times> crc32) res \<times> ('s, 'st, 't) Decoder) option" where
  "fillOFSDeltaObjectContent_in E ro d obj off =
     (case NextObject E (d_s d) of
        (Inl err, s1) \<Rightarrow> Some (Error err, d\<lparr>d_s := s1\<rparr>)
      | (Inr (buf, crc), s1) \<Rightarrow>
          applyToBase E obj buf crc (recallByOffset_in E ro off (d\<lparr>d_s := s1\<rparr>)))"

text \<open>The \<^verbatim>\<open>switch h.Type\<close> of \<^verbatim>\<open>ReadObject\<close>.\<close>

definition fillContent_in ::
  "('s, 'st, 't) env \<Rightarrow> ('s, 'st, 't) reader \<Rightarrow> ('s, 'st, 't) Decoder \<Rightarrow> Object
     \<Rightarrow> ObjectHeader \<Rightarrow> ((Object \<times> crc32) res \<times> ('s, 'st, 't) Decoder) option" where
  "fillContent_in E ro d obj h =
     (case HType h of
        CommitObject \<Rightarrow> Some (fillRegularObjectContent E d obj)
      | TreeObject \<Rightarrow> Some (fillRegularObjectContent E d obj)
      | BlobObject \<Rightarrow> Some (fillRegularObjectContent E d obj)
      | TagObject \<Rightarrow> Some (fillRegularObjectContent E d obj)
      | REFDeltaObject \<Rightarrow> fillREFDeltaObjectContent_in E ro d obj (Reference h)
      | OFSDeltaObject \<Rightarrow> fillOFSDeltaObjectContent_in E ro d obj (OffsetReference h)
      | _ \<Rightarrow> Some (Error (ErrInvalidObject (''type '' @ ObjectType_String (HType h))), d))"

text \<open>The end of \<^verbatim>\<open>ReadObject\<close>: an error returns at once, a filled object is hashed
  and indexed.\<close>

definition finishObject ::
  "('s, 'st, 't) env \<Rightarrow> ObjectHeader
     \<Rightarrow> ((Object \<times> crc32) res \<times> ('s, 'st, 't) Decoder) option
     \<Rightarrow> (Object res \<times> ('s, 'st, 't) Decoder) option" where
  "finishObject E h filled =
     (case filled of
        None \<Rightarrow> None
      | Some (Panic, d2) \<Rightarrow> Some (Panic, d2)
      | Some (Error err, d2) \<Rightarrow> Some (Error err, d2)
      | Some (Ok (obj', crc), d2) \<Rightarrow>
          (let hash = HashOf E obj' in
           Some (Ok obj', setCRC (setOffset d2 hash (Offset h)) hash crc)))"

definition ReadObject_in ::
  "('s, 'st, 't) env \<Rightarrow> ('s, 'st, 't) reader \<Rightarrow> ('s, 'st, 't) reader" where
  "ReadObject_in E ro d =
     (case NextObjectHeader E (d_s d) of
        (Inl err, s1) \<Rightarrow> Some (Error err, d\<lparr>d_s := s1\<rparr>)
      | (Inr h, s1) \<Rightarrow>
          (case newObject E (d\<lparr>d_s := s1\<rparr>) of
             (obj0, d1) \<Rightarrow>
               finishObject E h
                 (fillContent_in E ro d1 (obj0\<lparr>Size := Length h, Type := HType h\<rparr>) h)))"

primrec ReadObject :: "('s, 'st, 't) env \<Rightarrow> nat \<Rightarrow> ('s, 'st, 't) reader" where
  "ReadObject E 0 = (\<lambda>d. None)"
| "ReadObject E (Suc n) = ReadObject_in E (ReadObject E n)"

definition ReadObjectAt ::
  "('s, 'st, 't) env \<Rightarrow> nat \<Rightarrow> offset \<Rightarrow> ('s, 'st, 't) reader" where
  "ReadObjectAt E n = ReadObjectAt_in E (ReadObject E n)"

definition recallByOffset ::
  "('s, 'st, 't) env \<Rightarrow> nat \<Rightarrow> offset \<Rightarrow> ('s, 'st, 't) reader" where
  "recallByOffset E n = recallByOffset_in E (ReadObject E n)"

definition recallByHash ::
  "('s, 'st, 't) env \<Rightarrow> nat \<Rightarrow> Hash \<Rightarrow> ('s, 'st, 't) reader" where
  "recallByHash E n = recallByHash_in E (ReadObject E n)"

definition fillREFDeltaObjectContent ::
  "('s, 'st, 't) env \<Rightarrow> nat \<Rightarrow> ('s, 'st, 't) Decoder \<Rightarrow> Object \<Rightarrow> Hash
     \<Rightarrow> ((Object \<times> crc32) res \<times> ('s, 'st, 't) Decoder) option" where
  "fillREFDeltaObjectContent E n = fillREFDeltaObjectContent_in E (ReadObject E n)"

definition fillOFSDeltaObjectContent ::
  "('s, 'st, 't) env \<Rightarrow> nat \<Rightarrow> ('s, 'st, 't) Decoder \<Rightarrow> Object \<Rightarrow> offset
     \<Rightarrow> ((Object \<times> crc32) res \<times> ('s, 'st, 't) Decoder) option" where
  "fillOFSDeltaObjectContent E n = fillOFSDeltaObjectContent_in E (ReadObject E n)"


subsection \<open>The three loops and \<^verbatim>\<open>Decode\<close>\<close>

text \<open>
  \<^verbatim>\<open>for i := 0; i < count; i++\<close> is a recursion on \<open>i\<close>, with the measure \<open>count - i\<close>.
  \<^verbatim>\<open>count\<close> is \<^verbatim>\<open>int(count)\<close> of the header's \<^verbatim>\<open>uint32\<close>; \<^verbatim>\<open>int\<close> has 64 bits on the
  platforms modelled, so the conversion keeps the value.
\<close>

function readObjects_from ::
  "('s, 'st, 't) env \<Rightarrow> nat \<Rightarrow> int \<Rightarrow> int \<Rightarrow> ('s, 'st, 't) Decoder
     \<Rightarrow> (unit res \<times> ('s, 'st, 't) Decoder) option" where
  "readObjects_from E n count i d =
     (if i < count then
        (case ReadObject E n d of
           None \<Rightarrow> None
         | Some (Panic, d1) \<Rightarrow> Some (Panic, d1)
         | Some (Error err, d1) \<Rightarrow> Some (Error err, d1)
         | Some (Ok obj, d1) \<Rightarrow> readObjects_from E n count (i + 1) d1)
      else Some (Ok (), d))"
  by pat_completeness auto
termination
  by (relation "measure (\<lambda>(E, n, count, i, d). nat (count - i))") auto

definition readObjects ::
  "('s, 'st, 't) env \<Rightarrow> nat \<Rightarrow> int \<Rightarrow> ('s, 'st, 't) Decoder
     \<Rightarrow> (unit res \<times> ('s, 'st, 't) Decoder) option" where
  "readObjects E n count d = readObjects_from E n count 0 d"

text \<open>\<^verbatim>\<open>d.o.SetObject(obj)\<close>; the loop runs only with a store.\<close>

definition d_o_SetObject ::
  "('s, 'st, 't) env \<Rightarrow> ('s, 'st, 't) Decoder \<Rightarrow> Object
     \<Rightarrow> Hash res \<times> ('s, 'st, 't) Decoder" where
  "d_o_SetObject E d obj =
     (case d_o d of
        None \<Rightarrow> (Panic, d)
      | Some st \<Rightarrow>
          (case SetObject E obj st of
             (Inl err, st') \<Rightarrow> (Error err, d\<lparr>d_o := Some st'\<rparr>)
           | (Inr h, st') \<Rightarrow> (Ok h, d\<lparr>d_o := Some st'\<rparr>)))"

function readObjectsWithObjectStorer_from ::
  "('s, 'st, 't) env \<Rightarrow> nat \<Rightarrow> int \<Rightarrow> int \<Rightarrow> ('s, 'st, 't) Decoder
     \<Rightarrow> (unit res \<times> ('s, 'st, 't) Decoder) option" where
  "readObjectsWithObjectStorer_from E n count i d =
     (if i < count then
        (case ReadObject E n d of
           None \<Rightarrow> None
         | Some (Panic, d1) \<Rightarrow> Some (Panic, d1)
         | Some (Error err, d1) \<Rightarrow> Some (Error err, d1)
         | Some (Ok obj, d1) \<Rightarrow>
             (case d_o_SetObject E d1 obj of
                (Panic, d2) \<Rightarrow> Some (Panic, d2)
              | (Error err, d2) \<Rightarrow> Some (Error err, d2)
              | (Ok h, d2) \<Rightarrow> readObjectsWithObjectStorer_from E n count (i + 1) d2))
      else Some (Ok (), d))"
  by pat_completeness auto
termination
  by (relation "measure (\<lambda>(E, n, count, i, d). nat (count - i))") auto

definition readObjectsWithObjectStorer ::
  "('s, 'st, 't) env \<Rightarrow> nat \<Rightarrow> int \<Rightarrow> ('s, 'st, 't) Decoder
     \<Rightarrow> (unit res \<times> ('s, 'st, 't) Decoder) option" where
  "readObjectsWithObjectStorer E n count d = readObjectsWithObjectStorer_from E n count 0 d"

text \<open>The calls on the local \<^verbatim>\<open>tx\<close> that \<^verbatim>\<open>Begin\<close> returned, and \<^verbatim>\<open>d.tx.Rollback()\<close>,
  a call on the decoder's field.\<close>

definition tx_SetObject ::
  "('s, 'st, 't) env \<Rightarrow> 't \<Rightarrow> ('s, 'st, 't) Decoder \<Rightarrow> Object
     \<Rightarrow> Hash res \<times> ('s, 'st, 't) Decoder" where
  "tx_SetObject E tx d obj =
     (case d_o d of
        None \<Rightarrow> (Panic, d)
      | Some st \<Rightarrow>
          (case txSetObject E tx obj st of
             (Inl err, st') \<Rightarrow> (Error err, d\<lparr>d_o := Some st'\<rparr>)
           | (Inr h, st') \<Rightarrow> (Ok h, d\<lparr>d_o := Some st'\<rparr>)))"

definition tx_Commit ::
  "('s, 'st, 't) env \<Rightarrow> 't \<Rightarrow> ('s, 'st, 't) Decoder
     \<Rightarrow> unit res \<times> ('s, 'st, 't) Decoder" where
  "tx_Commit E tx d =
     (case d_o d of
        None \<Rightarrow> (Panic, d)
      | Some st \<Rightarrow>
          (case txCommit E tx st of
             (Some err, st') \<Rightarrow> (Error err, d\<lparr>d_o := Some st'\<rparr>)
           | (None, st') \<Rightarrow> (Ok (), d\<lparr>d_o := Some st'\<rparr>)))"

definition d_tx_Rollback ::
  "('s, 'st, 't) env \<Rightarrow> ('s, 'st, 't) Decoder \<Rightarrow> unit res \<times> ('s, 'st, 't) Decoder" where
  "d_tx_Rollback E d =
     (case d_tx d of
        None \<Rightarrow> (Panic, d)
      | Some tx \<Rightarrow>
          (case d_o d of
             None \<Rightarrow> (Panic, d)
           | Some st \<Rightarrow>
               (case txRollback E tx st of
                  (Some rerr, st') \<Rightarrow> (Error rerr, d\<lparr>d_o := Some st'\<rparr>)
                | (None, st') \<Rightarrow> (Ok (), d\<lparr>d_o := Some st'\<rparr>))))"

text \<open>The branch of a failed \<^verbatim>\<open>tx.SetObject\<close>, with its error \<open>err\<close>.\<close>

definition afterSetError ::
  "('s, 'st, 't) env \<Rightarrow> ('s, 'st, 't) Decoder \<Rightarrow> error
     \<Rightarrow> unit res \<times> ('s, 'st, 't) Decoder" where
  "afterSetError E d err =
     (case d_tx_Rollback E d of
        (Panic, d1) \<Rightarrow> (Panic, d1)
      | (Error rerr, d1) \<Rightarrow>
          (Error (ErrRollback (''error: '' @ Error_String rerr @
                               '', during tx.Set error: '' @ Error_String err)), d1)
      | (Ok u, d1) \<Rightarrow> (Error err, d1))"

function readObjectsWithObjectStorerTx_from ::
  "('s, 'st, 't) env \<Rightarrow> nat \<Rightarrow> 't \<Rightarrow> int \<Rightarrow> int \<Rightarrow> ('s, 'st, 't) Decoder
     \<Rightarrow> (unit res \<times> ('s, 'st, 't) Decoder) option" where
  "readObjectsWithObjectStorerTx_from E n tx count i d =
     (if i < count then
        (case ReadObject E n d of
           None \<Rightarrow> None
         | Some (Panic, d1) \<Rightarrow> Some (Panic, d1)
         | Some (Error err, d1) \<Rightarrow> Some (Error err, d1)
         | Some (Ok obj, d1) \<Rightarrow>
             (case tx_SetObject E tx d1 obj of
                (Panic, d2) \<Rightarrow> Some (Panic, d2)
              | (Error err, d2) \<Rightarrow> Some (afterSetError E d2 err)
              | (Ok h, d2) \<Rightarrow> readObjectsWithObjectStorerTx_from E n tx count (i + 1) d2))
      else Some (tx_Commit E tx d))"
  by pat_completeness auto
termination
  by (relation "measure (\<lambda>(E, n, tx, count, i, d). nat (count - i))") auto

text \<open>\<^verbatim>\<open>d.o.(storer.Transactioner)\<close> panics when the store is nil or is no
  \<^verbatim>\<open>Transactioner\<close>.\<close>

text \<open>The equations of the three loops are unfolded by hand, one iteration at a time.\<close>

declare readObjects_from.simps [simp del]
declare readObjectsWithObjectStorer_from.simps [simp del]
declare readObjectsWithObjectStorerTx_from.simps [simp del]

definition readObjectsWithObjectStorerTx ::
  "('s, 'st, 't) env \<Rightarrow> nat \<Rightarrow> int \<Rightarrow> ('s, 'st, 't) Decoder
     \<Rightarrow> (unit res \<times> ('s, 'st, 't) Decoder) option" where
  "readObjectsWithObjectStorerTx E n count d =
     (case d_o d of
        None \<Rightarrow> Some (Panic, d)
      | Some st \<Rightarrow>
          (if \<not> isTransactioner E then Some (Panic, d)
           else
             (case Begin E st of
                (tx, st') \<Rightarrow>
                  readObjectsWithObjectStorerTx_from E n tx count 0 (d\<lparr>d_o := Some st'\<rparr>))))"

definition doDecode ::
  "('s, 'st, 't) env \<Rightarrow> nat \<Rightarrow> ('s, 'st, 't) Decoder
     \<Rightarrow> (unit res \<times> ('s, 'st, 't) Decoder) option" where
  "doDecode E n d =
     (case Header E (d_s d) of
        (Inl err, s1) \<Rightarrow> Some (Error err, d\<lparr>d_s := s1\<rparr>)
      | (Inr (version, count), s1) \<Rightarrow>
          (let isTxStorer = (d_o d \<noteq> None \<and> isTransactioner E) in
           if d_o d = None then readObjects E n (uint count) (d\<lparr>d_s := s1\<rparr>)
           else if isTxStorer then readObjectsWithObjectStorerTx E n (uint count) (d\<lparr>d_s := s1\<rparr>)
           else readObjectsWithObjectStorer E n (uint count) (d\<lparr>d_s := s1\<rparr>)))"

text \<open>\<^verbatim>\<open>Decode\<close> returns \<^verbatim>\<open>plumbing.ZeroHash\<close> beside an error of \<^verbatim>\<open>doDecode\<close>; the model
  returns the error.\<close>

definition Decode ::
  "('s, 'st, 't) env \<Rightarrow> nat \<Rightarrow> ('s, 'st, 't) Decoder
     \<Rightarrow> (Hash res \<times> ('s, 'st, 't) Decoder) option" where
  "Decode E n d =
     (case doDecode E n d of
        None \<Rightarrow> None
      | Some (Panic, d1) \<Rightarrow> Some (Panic, d1)
      | Some (Error err, d1) \<Rightarrow> Some (Error err, d1)
      | Some (Ok u, d1) \<Rightarrow>
          (case Checksum E (d_s d1) of
             (Inl err, s2) \<Rightarrow> Some (Error err, d1\<lparr>d_s := s2\<rparr>)
           | (Inr checksum, s2) \<Rightarrow> Some (Ok checksum, d1\<lparr>d_s := s2\<rparr>)))"

subsection \<open>A small Scanner and store, for concrete runs\<close>

text \<open>
  The concrete runs below need a Scanner and a store. This Scanner reads a pack given
  as a table from offsets to entries (header, body, CRC, offset of the next entry), keeps
  a cursor \<open>pos\<close>, and lets a given number of \<^verbatim>\<open>Seek\<close> calls succeed before they fail.
  The store stages the objects of a transaction, counts its rollbacks, and lets a given
  number of \<^verbatim>\<open>SetObject\<close> calls succeed. The hash is the payload padded to 20 bytes,
  and applying a delta appends it to the base.
\<close>

record TScanner =
  pos :: offset
  seeksLeft :: nat
  seekLog :: "offset list"

record TStore =
  stored :: "Object list"
  staged :: "Object list"
  setsLeft :: nat
  rollbacks :: nat

type_synonym TEntry = "ObjectHeader \<times> byte list \<times> crc32 \<times> offset"

definition testHash :: "Object \<Rightarrow> Hash" where
  "testHash obj = take 20 (Content obj @ replicate 20 0)"

definition testSet :: "Object \<Rightarrow> TStore \<Rightarrow> bool \<Rightarrow> (error + Hash) \<times> TStore" where
  "testSet obj st direct =
     (case setsLeft st of
        0 \<Rightarrow> (Inl (ErrExternal ''set failed''), st)
      | Suc k \<Rightarrow>
          (Inr (testHash obj),
           if direct then st\<lparr>stored := stored st @ [obj], setsLeft := k\<rparr>
           else st\<lparr>staged := staged st @ [obj], setsLeft := k\<rparr>))"

definition testEnv ::
  "bool \<Rightarrow> bool \<Rightarrow> 32 word \<Rightarrow> (offset \<times> TEntry) list \<Rightarrow> (TScanner, TStore, unit) env" where
  "testEnv seekable transactional count pack =
     \<lparr>IsSeekable = seekable,
      Header = (\<lambda>s. (Inr (2, count), s)),
      NextObjectHeader = (\<lambda>s.
        case map_of pack (pos s) of
          None \<Rightarrow> (Inl (ErrExternal ''EOF''), s)
        | Some (h, body, crc, next) \<Rightarrow> (Inr h, s)),
      NextObject = (\<lambda>s.
        case map_of pack (pos s) of
          None \<Rightarrow> (Inl (ErrExternal ''EOF''), s)
        | Some (h, body, crc, next) \<Rightarrow> (Inr (body, crc), s\<lparr>pos := next\<rparr>)),
      Seek = (\<lambda>off s.
        case seeksLeft s of
          0 \<Rightarrow> (Inl (ErrExternal ''seek failed''), s)
        | Suc k \<Rightarrow> (Inr (pos s), s\<lparr>pos := off, seeksLeft := k, seekLog := seekLog s @ [off]\<rparr>)),
      Checksum = (\<lambda>s. (Inr (replicate 20 170), s)),
      NewObject = (\<lambda>st. (MemoryObject, st)),
      SetObject = (\<lambda>obj st. testSet obj st True),
      isTransactioner = transactional,
      Begin = (\<lambda>st. ((), st)),
      txSetObject = (\<lambda>tx obj st. testSet obj st False),
      txObject = (\<lambda>tx t h st. (Inl ErrObjectNotFound, st)),
      txCommit = (\<lambda>tx st. (None, st\<lparr>stored := stored st @ staged st, staged := []\<rparr>)),
      txRollback = (\<lambda>tx st. (None, st\<lparr>staged := [], rollbacks := Suc (rollbacks st)\<rparr>)),
      Writer = (\<lambda>obj. None),
      HashOf = testHash,
      ApplyDelta = (\<lambda>target base delta. Inr (target\<lparr>Content := Content base @ delta\<rparr>))\<rparr>"

definition testHeader :: "ObjectType \<Rightarrow> offset \<Rightarrow> Hash \<Rightarrow> offset \<Rightarrow> ObjectHeader" where
  "testHeader t off ref oref =
     \<lparr>HType = t, Offset = off, Length = 1, Reference = ref, OffsetReference = oref\<rparr>"

definition testScanner :: "offset \<Rightarrow> nat \<Rightarrow> TScanner" where
  "testScanner p k = \<lparr>pos = p, seeksLeft = k, seekLog = []\<rparr>"

definition testStore :: "nat \<Rightarrow> TStore" where
  "testStore k = \<lparr>stored = [], staged = [], setsLeft = k, rollbacks = 0\<rparr>"

text \<open>The decoder \<^verbatim>\<open>NewDecoder\<close> returns when it does not fail.\<close>

definition freshDecoder :: "'s \<Rightarrow> 'st option \<Rightarrow> ('s, 'st, 't) Decoder" where
  "freshDecoder s0 o0 =
     \<lparr>d_s = s0, d_o = o0, d_tx = None,
      offsetToHash = Map.empty, hashToOffset = Map.empty, crcs = Map.empty\<rparr>"

definition blobPack :: "(offset \<times> TEntry) list" where
  "blobPack =
     [(12, (testHeader BlobObject 12 [] 0, [97], 1, 20)),
      (20, (testHeader BlobObject 20 [] 0, [97], 1, 28))]"



subsection \<open>Predicates of the statements\<close>



subsection \<open>The loops as counted iterations\<close>

text \<open>
  The three loops read one object per iteration and differ in what they do with it:
  nothing (\<open>NoStore\<close>), \<^verbatim>\<open>d.o.SetObject\<close> (\<open>Direct\<close>), or \<^verbatim>\<open>tx.SetObject\<close> with the
  rollback branch (\<open>InTx tx\<close>). \<open>decode_n\<close> is the iteration the specification describes,
  "decodes exactly \<open>N\<close> objects": \<open>k\<close> times a \<^verbatim>\<open>ReadObject\<close> and the step of the store,
  stopping at the first failure, and it returns the objects it read. The loops of the
  source are proved equal to it below.
\<close>

datatype 't mode = NoStore | Direct | InTx 't

definition unit_res :: "'a res \<Rightarrow> unit res" where
  "unit_res r = (case r of Ok x \<Rightarrow> Ok () | Error err \<Rightarrow> Error err | Panic \<Rightarrow> Panic)"

definition put ::
  "('s, 'st, 't) env \<Rightarrow> 't mode \<Rightarrow> ('s, 'st, 't) Decoder \<Rightarrow> Object
     \<Rightarrow> unit res \<times> ('s, 'st, 't) Decoder" where
  "put E m d obj =
     (case m of
        NoStore \<Rightarrow> (Ok (), d)
      | Direct \<Rightarrow> (case d_o_SetObject E d obj of (r, d2) \<Rightarrow> (unit_res r, d2))
      | InTx tx \<Rightarrow>
          (case tx_SetObject E tx d obj of
             (Panic, d2) \<Rightarrow> (Panic, d2)
           | (Error err, d2) \<Rightarrow> afterSetError E d2 err
           | (Ok h, d2) \<Rightarrow> (Ok (), d2)))"

primrec decode_n ::
  "('s, 'st, 't) env \<Rightarrow> nat \<Rightarrow> 't mode \<Rightarrow> nat \<Rightarrow> ('s, 'st, 't) Decoder
     \<Rightarrow> (Object list res \<times> ('s, 'st, 't) Decoder) option" where
  "decode_n E n m 0 d = Some (Ok [], d)"
| "decode_n E n m (Suc k) d =
     (case ReadObject E n d of
        None \<Rightarrow> None
      | Some (Panic, d1) \<Rightarrow> Some (Panic, d1)
      | Some (Error err, d1) \<Rightarrow> Some (Error err, d1)
      | Some (Ok obj, d1) \<Rightarrow>
          (case put E m d1 obj of
             (Panic, d2) \<Rightarrow> Some (Panic, d2)
           | (Error err, d2) \<Rightarrow> Some (Error err, d2)
           | (Ok u, d2) \<Rightarrow>
               (case decode_n E n m k d2 of
                  None \<Rightarrow> None
                | Some (Panic, d3) \<Rightarrow> Some (Panic, d3)
                | Some (Error err, d3) \<Rightarrow> Some (Error err, d3)
                | Some (Ok objs, d3) \<Rightarrow> Some (Ok (obj # objs), d3))))"

text \<open>The end of a loop: the transactional one commits.\<close>

definition finish ::
  "('s, 'st, 't) env \<Rightarrow> 't mode \<Rightarrow> (Object list res \<times> ('s, 'st, 't) Decoder) option
     \<Rightarrow> (unit res \<times> ('s, 'st, 't) Decoder) option" where
  "finish E m looped =
     (case looped of
        None \<Rightarrow> None
      | Some (Panic, d1) \<Rightarrow> Some (Panic, d1)
      | Some (Error err, d1) \<Rightarrow> Some (Error err, d1)
      | Some (Ok objs, d1) \<Rightarrow>
          (case m of InTx tx \<Rightarrow> Some (tx_Commit E tx d1) | _ \<Rightarrow> Some (Ok (), d1)))"

section \<open>Properties\<close>

subsection \<open>Evaluating the concrete runs\<close>

lemma testEnv_sel:
  "IsSeekable (testEnv a b c p) = a"
  "isTransactioner (testEnv a b c p) = b"
  "Header (testEnv a b c p) s = (Inr (2, c), s)"
  "NextObjectHeader (testEnv a b c p) s =
     (case map_of p (pos s) of
        None \<Rightarrow> (Inl (ErrExternal ''EOF''), s)
      | Some (h, body, crc, next) \<Rightarrow> (Inr h, s))"
  "NextObject (testEnv a b c p) s =
     (case map_of p (pos s) of
        None \<Rightarrow> (Inl (ErrExternal ''EOF''), s)
      | Some (h, body, crc, next) \<Rightarrow> (Inr (body, crc), s\<lparr>pos := next\<rparr>))"
  "Seek (testEnv a b c p) off s =
     (case seeksLeft s of
        0 \<Rightarrow> (Inl (ErrExternal ''seek failed''), s)
      | Suc k \<Rightarrow> (Inr (pos s), s\<lparr>pos := off, seeksLeft := k, seekLog := seekLog s @ [off]\<rparr>))"
  "Checksum (testEnv a b c p) s = (Inr (replicate 20 170), s)"
  "NewObject (testEnv a b c p) st = (MemoryObject, st)"
  "SetObject (testEnv a b c p) obj st = testSet obj st True"
  "Begin (testEnv a b c p) st = ((), st)"
  "txSetObject (testEnv a b c p) tx obj st = testSet obj st False"
  "txObject (testEnv a b c p) tx t h st = (Inl ErrObjectNotFound, st)"
  "txCommit (testEnv a b c p) tx st = (None, st\<lparr>stored := stored st @ staged st, staged := []\<rparr>)"
  "txRollback (testEnv a b c p) tx st = (None, st\<lparr>staged := [], rollbacks := Suc (rollbacks st)\<rparr>)"
  "Writer (testEnv a b c p) obj = None"
  "HashOf (testEnv a b c p) = testHash"
  "ApplyDelta (testEnv a b c p) target base delta = Inr (target\<lparr>Content := Content base @ delta\<rparr>)"
  by (simp_all add: testEnv_def)

lemmas testEnv_simps = testEnv_sel testHeader_def testScanner_def testStore_def
  freshDecoder_def testHash_def testSet_def MemoryObject_def Let_def

lemmas decoder_defs = ReadObjectAt_def ReadObjectAt_in_def ReadObject_in_def newObject_def
  fillContent_in_def fillRegularObjectContent_def finishObject_def setOffset_def setCRC_def
  fillOFSDeltaObjectContent_in_def fillREFDeltaObjectContent_in_def recallByOffset_in_def
  recallByHash_in_def applyToBase_def d_tx_Object_def


subsection \<open>Construction and non-seekable scanners\<close>

text \<open>
  Claim C8. \<^verbatim>\<open>NewDecoder\<close> fails with \<^verbatim>\<open>ErrNonSeekable\<close> exactly when the scanner is not
  seekable and the store is absent. With a non-seekable scanner and a store it returns a
  decoder with an empty index, and from then on every \<^verbatim>\<open>ReadObjectAt\<close>, with any
  offset and in any state of the decoder, fails with \<^verbatim>\<open>ErrNonSeekable\<close> and leaves the
  decoder as it was.
\<close>

theorem NewDecoder_NonSeekable:
  "(NewDecoder E s0 o0 = Inl ErrNonSeekable \<longleftrightarrow> \<not> IsSeekable E \<and> o0 = None)
   \<and> (\<not> IsSeekable E \<and> o0 \<noteq> None \<longrightarrow>
        NewDecoder E s0 o0 = Inr (freshDecoder s0 o0)
        \<and> (\<forall>n off d. ReadObjectAt E n off d = Some (Error ErrNonSeekable, d)))"
  by (auto simp: NewDecoder_def freshDecoder_def ReadObjectAt_def ReadObjectAt_in_def)

theorem NewDecoder_NonSeekable_witness:
  "\<not> IsSeekable (testEnv False False 2 blobPack) \<and> Some (testStore 1) \<noteq> None
   \<and> NewDecoder (testEnv False False 2 blobPack) (testScanner 12 0) (Some (testStore 1))
       = Inr (freshDecoder (testScanner 12 0) (Some (testStore 1)))
   \<and> ReadObjectAt (testEnv False False 2 blobPack) 1 12
        (freshDecoder (testScanner 12 0) (Some (testStore 1)))
       = Some (Error ErrNonSeekable, freshDecoder (testScanner 12 0) (Some (testStore 1)))"
proof -
  have h: "\<not> IsSeekable (testEnv False False 2 blobPack) \<and> Some (testStore 1) \<noteq> None"
    by (simp add: testEnv_sel)
  from h NewDecoder_NonSeekable [of "testEnv False False 2 blobPack" "testScanner 12 0"
      "Some (testStore 1)"]
  show ?thesis by blast
qed

subsection \<open>Random-access reads\<close>

text \<open>
  Claim C3 says that \<^verbatim>\<open>ReadObjectAt\<close> returns the error of the restoring \<^verbatim>\<open>Seek\<close> when
  \<^verbatim>\<open>ReadObject\<close> succeeded. The deferred function does assign that error, but to a local
  variable the return statement no longer reads. Here the scanner (at offset 99) allows
  one \<^verbatim>\<open>Seek\<close>: the jump to 12 succeeds, the blob there is read, the \<^verbatim>\<open>Seek\<close> back to 99
  fails, and \<^verbatim>\<open>ReadObjectAt\<close> returns the blob with no error.
\<close>

theorem ReadObjectAt_loses_seekErr:
  "ReadObjectAt (testEnv True False 2 blobPack) 1 12 (freshDecoder (testScanner 99 1) None)
     = Some (Ok \<lparr>Type = BlobObject, Size = 1, Content = [97]\<rparr>,
             setCRC (setOffset (freshDecoder (testScanner 20 0\<lparr>seekLog := [12]\<rparr>) None)
                       (97 # replicate 19 0) 12) (97 # replicate 19 0) 1)
   \<and> Seek (testEnv True False 2 blobPack) 99 (testScanner 20 0\<lparr>seekLog := [12]\<rparr>)
     = (Inl (ErrExternal ''seek failed''), testScanner 20 0\<lparr>seekLog := [12]\<rparr>)"
  by (simp add: decoder_defs testEnv_simps blobPack_def)




subsection \<open>The index\<close>




subsection \<open>The loops are counted iterations\<close>

lemma afterSetError_not_Ok: "afterSetError E d err \<noteq> (Ok u, d')"
  by (simp add: afterSetError_def split: prod.splits res.splits)

lemma readObjects_from_decode_n:
  "readObjects_from E n count i d = finish E NoStore (decode_n E n NoStore (nat (count - i)) d)"
proof (induction "nat (count - i)" arbitrary: i d)
  case 0
  then have "\<not> i < count" by simp
  then show ?case
    unfolding 0 [symmetric]
    by (simp add: readObjects_from.simps [of E n count i d] finish_def)
next
  case (Suc k)
  then have lt: "i < count" and k: "k = nat (count - (i + 1))" by simp_all
  have IH: "readObjects_from E n count (i + 1) d1
              = finish E NoStore (decode_n E n NoStore k d1)" for d1
    using Suc.hyps(1) [OF k, of d1] k by simp
  show ?case
    unfolding Suc.hyps(2) [symmetric]
    by (simp add: readObjects_from.simps [of E n count i d] lt IH put_def finish_def
        split: option.splits prod.splits res.splits)
qed

lemma readObjectsWithObjectStorer_from_decode_n:
  "readObjectsWithObjectStorer_from E n count i d
     = finish E Direct (decode_n E n Direct (nat (count - i)) d)"
proof (induction "nat (count - i)" arbitrary: i d)
  case 0
  then have "\<not> i < count" by simp
  then show ?case
    unfolding 0 [symmetric]
    by (simp add: readObjectsWithObjectStorer_from.simps [of E n count i d] finish_def)
next
  case (Suc k)
  then have lt: "i < count" and k: "k = nat (count - (i + 1))" by simp_all
  have IH: "readObjectsWithObjectStorer_from E n count (i + 1) d1
              = finish E Direct (decode_n E n Direct k d1)" for d1
    using Suc.hyps(1) [OF k, of d1] k by simp
  show ?case
    unfolding Suc.hyps(2) [symmetric]
    by (simp add: readObjectsWithObjectStorer_from.simps [of E n count i d] lt IH put_def
        finish_def unit_res_def split: option.splits prod.splits res.splits)
qed

lemma readObjectsWithObjectStorerTx_from_decode_n:
  "readObjectsWithObjectStorerTx_from E n tx count i d
     = finish E (InTx tx) (decode_n E n (InTx tx) (nat (count - i)) d)"
proof (induction "nat (count - i)" arbitrary: i d)
  case 0
  then have "\<not> i < count" by simp
  then show ?case
    unfolding 0 [symmetric]
    by (simp add: readObjectsWithObjectStorerTx_from.simps [of E n tx count i d] finish_def)
next
  case (Suc k)
  then have lt: "i < count" and k: "k = nat (count - (i + 1))" by simp_all
  have IH: "readObjectsWithObjectStorerTx_from E n tx count (i + 1) d1
              = finish E (InTx tx) (decode_n E n (InTx tx) k d1)" for d1
    using Suc.hyps(1) [OF k, of d1] k by simp
  show ?case
    unfolding Suc.hyps(2) [symmetric]
    by (simp add: readObjectsWithObjectStorerTx_from.simps [of E n tx count i d] lt IH put_def
        finish_def afterSetError_not_Ok split: option.splits prod.splits res.splits)
qed

subsection \<open>The field \<^verbatim>\<open>tx\<close>\<close>

text \<open>No function of the decoder changes \<open>d_tx\<close>.\<close>

lemma ReadObjectAt_in_d_tx:
  assumes "\<forall>d r d'. ro d = Some (r, d') \<longrightarrow> d_tx d' = d_tx d"
    and "ReadObjectAt_in E ro off d = Some (r, d')"
  shows "d_tx d' = d_tx d"
proof (cases "IsSeekable E")
  case False
  with assms(2) show ?thesis by (simp add: ReadObjectAt_in_def)
next
  case True
  show ?thesis
  proof (cases "Seek E off (d_s d)")
    case (Pair a s1)
    show ?thesis
    proof (cases a)
      case (Inl err)
      with assms(2) True Pair show ?thesis by (auto simp: ReadObjectAt_in_def)
    next
      case (Inr b)
      with assms(2) True Pair obtain d1 where
        "ro (d\<lparr>d_s := s1\<rparr>) = Some (r, d1)" and "d_tx d' = d_tx d1"
        by (auto simp: ReadObjectAt_in_def split: option.splits prod.splits)
      with assms(1) show ?thesis by fastforce
    qed
  qed
qed

lemma d_tx_Object_d_tx: "d_tx_Object E d t h = (r, d') \<Longrightarrow> d_tx d' = d_tx d"
  by (auto simp: d_tx_Object_def split: option.splits prod.splits sum.splits)

lemma recallByOffset_in_d_tx:
  assumes "\<forall>d r d'. ro d = Some (r, d') \<longrightarrow> d_tx d' = d_tx d"
    and "recallByOffset_in E ro off d = Some (r, d')"
  shows "d_tx d' = d_tx d"
proof (cases "IsSeekable E")
  case True
  with assms(2) have "ReadObjectAt_in E ro off d = Some (r, d')"
    by (simp add: recallByOffset_in_def)
  with assms(1) show ?thesis by (rule ReadObjectAt_in_d_tx)
next
  case False
  with assms(2) show ?thesis
    by (auto simp: recallByOffset_in_def split: option.splits dest: d_tx_Object_d_tx)
qed

lemma recallByHash_in_d_tx:
  assumes "\<forall>d r d'. ro d = Some (r, d') \<longrightarrow> d_tx d' = d_tx d"
    and "recallByHash_in E ro h d = Some (r, d')"
  shows "d_tx d' = d_tx d"
proof (cases "if IsSeekable E then hashToOffset d h else None")
  case None
  with assms(2) show ?thesis
    by (auto simp: recallByHash_in_def split: prod.splits res.splits if_splits
        dest: d_tx_Object_d_tx)
next
  case (Some off)
  with assms(2) have "ReadObjectAt_in E ro off d = Some (r, d')"
    by (simp add: recallByHash_in_def)
  with assms(1) show ?thesis by (rule ReadObjectAt_in_d_tx)
qed

lemma applyToBase_Some:
  "applyToBase E obj buf crc x = Some (r, d') \<Longrightarrow> \<exists>r1. x = Some (r1, d')"
  by (auto simp: applyToBase_def split: option.splits prod.splits res.splits sum.splits)

lemma fillContent_in_d_tx:
  assumes "\<forall>d r d'. ro d = Some (r, d') \<longrightarrow> d_tx d' = d_tx d"
    and "fillContent_in E ro d obj h = Some (r, d')"
  shows "d_tx d' = d_tx d"
proof (cases "HType h")
  case OFSDeltaObject
  with assms(2) have f: "fillOFSDeltaObjectContent_in E ro d obj (OffsetReference h) = Some (r, d')"
    by (simp add: fillContent_in_def)
  show ?thesis
  proof (cases "NextObject E (d_s d)")
    case (Pair a s1)
    show ?thesis
    proof (cases a)
      case (Inl err)
      with f Pair show ?thesis by (auto simp: fillOFSDeltaObjectContent_in_def)
    next
      case (Inr bc)
      with f Pair obtain r1 where
        "recallByOffset_in E ro (OffsetReference h) (d\<lparr>d_s := s1\<rparr>) = Some (r1, d')"
        by (auto simp: fillOFSDeltaObjectContent_in_def split: prod.splits
            dest!: applyToBase_Some)
      from recallByOffset_in_d_tx [OF assms(1) this] show ?thesis by simp
    qed
  qed
next
  case REFDeltaObject
  with assms(2) have f: "fillREFDeltaObjectContent_in E ro d obj (Reference h) = Some (r, d')"
    by (simp add: fillContent_in_def)
  show ?thesis
  proof (cases "NextObject E (d_s d)")
    case (Pair a s1)
    show ?thesis
    proof (cases a)
      case (Inl err)
      with f Pair show ?thesis by (auto simp: fillREFDeltaObjectContent_in_def)
    next
      case (Inr bc)
      with f Pair obtain r1 where
        "recallByHash_in E ro (Reference h) (d\<lparr>d_s := s1\<rparr>) = Some (r1, d')"
        by (auto simp: fillREFDeltaObjectContent_in_def split: prod.splits
            dest!: applyToBase_Some)
      from recallByHash_in_d_tx [OF assms(1) this] show ?thesis by simp
    qed
  qed
qed (use assms(2) in \<open>auto simp: fillContent_in_def fillRegularObjectContent_def
      split: option.splits prod.splits sum.splits\<close>)

lemma newObject_d_tx: "newObject E d = (obj, d') \<Longrightarrow> d_tx d' = d_tx d"
  by (auto simp: newObject_def split: option.splits prod.splits)

lemma finishObject_d_tx:
  "finishObject E h x = Some (r, d') \<Longrightarrow> \<exists>r1 d1. x = Some (r1, d1) \<and> d_tx d' = d_tx d1"
  by (auto simp: finishObject_def setCRC_def setOffset_def Let_def
      split: option.splits prod.splits res.splits)

lemma ReadObject_in_d_tx:
  assumes "\<forall>d r d'. ro d = Some (r, d') \<longrightarrow> d_tx d' = d_tx d"
    and "ReadObject_in E ro d = Some (r, d')"
  shows "d_tx d' = d_tx d"
proof (cases "NextObjectHeader E (d_s d)")
  case (Pair a s1)
  show ?thesis
  proof (cases a)
    case (Inl err)
    with assms(2) Pair show ?thesis by (auto simp: ReadObject_in_def)
  next
    case (Inr h)
    obtain obj0 d1 where n: "newObject E (d\<lparr>d_s := s1\<rparr>) = (obj0, d1)"
      by (cases "newObject E (d\<lparr>d_s := s1\<rparr>)")
    with assms(2) Pair Inr obtain r1 d2 where
      f: "fillContent_in E ro d1 (obj0\<lparr>Size := Length h, Type := HType h\<rparr>) h = Some (r1, d2)"
      and e: "d_tx d' = d_tx d2"
      by (auto simp: ReadObject_in_def dest!: finishObject_d_tx)
    from fillContent_in_d_tx [OF assms(1) f] newObject_d_tx [OF n] e
    show ?thesis by simp
  qed
qed

lemma ReadObject_d_tx: "ReadObject E n d = Some (r, d') \<Longrightarrow> d_tx d' = d_tx d"
proof (induction n arbitrary: d r d')
  case 0
  then show ?case by simp
next
  case (Suc n)
  from Suc.IH have "\<forall>d r d'. ReadObject E n d = Some (r, d') \<longrightarrow> d_tx d' = d_tx d"
    by blast
  from ReadObject_in_d_tx [OF this] Suc.prems show ?case by simp
qed

lemma ReadObject_keeps_d_tx:
  "\<forall>d r d'. ReadObject E n d = Some (r, d') \<longrightarrow> d_tx d' = d_tx d"
  using ReadObject_d_tx by blast

lemma ReadObjectAt_d_tx: "ReadObjectAt E n off d = Some (r, d') \<Longrightarrow> d_tx d' = d_tx d"
  unfolding ReadObjectAt_def by (rule ReadObjectAt_in_d_tx [OF ReadObject_keeps_d_tx])


lemma d_o_SetObject_d_tx: "d_o_SetObject E d obj = (r, d') \<Longrightarrow> d_tx d' = d_tx d"
  by (auto simp: d_o_SetObject_def split: option.splits prod.splits sum.splits)

lemma tx_SetObject_d_tx: "tx_SetObject E tx d obj = (r, d') \<Longrightarrow> d_tx d' = d_tx d"
  by (auto simp: tx_SetObject_def split: option.splits prod.splits sum.splits)

lemma tx_Commit_d_tx: "tx_Commit E tx d = (r, d') \<Longrightarrow> d_tx d' = d_tx d"
  by (auto simp: tx_Commit_def split: option.splits prod.splits)

lemma d_tx_Rollback_d_tx: "d_tx_Rollback E d = (r, d') \<Longrightarrow> d_tx d' = d_tx d"
  by (auto simp: d_tx_Rollback_def split: option.splits prod.splits)

lemma afterSetError_d_tx: "afterSetError E d err = (r, d') \<Longrightarrow> d_tx d' = d_tx d"
  by (auto simp: afterSetError_def split: prod.splits res.splits dest: d_tx_Rollback_d_tx)

lemma afterSetError_nil: "d_tx d = None \<Longrightarrow> afterSetError E d err = (Panic, d)"
  by (simp add: afterSetError_def d_tx_Rollback_def)

lemma put_d_tx: "put E m d obj = (r, d') \<Longrightarrow> d_tx d' = d_tx d"
proof (cases m)
  case NoStore
  assume "put E m d obj = (r, d')"
  with NoStore show ?thesis by (simp add: put_def)
next
  case Direct
  assume a: "put E m d obj = (r, d')"
  obtain r2 d2 where s: "d_o_SetObject E d obj = (r2, d2)" by (cases "d_o_SetObject E d obj")
  then have "d_tx d2 = d_tx d" by (rule d_o_SetObject_d_tx)
  with a Direct s show ?thesis by (simp add: put_def)
next
  case (InTx tx)
  assume a: "put E m d obj = (r, d')"
  obtain r2 d2 where s: "tx_SetObject E tx d obj = (r2, d2)" by (cases "tx_SetObject E tx d obj")
  then have k: "d_tx d2 = d_tx d" by (rule tx_SetObject_d_tx)
  show ?thesis
  proof (cases r2)
    case (Ok h)
    with a InTx s k show ?thesis by (simp add: put_def)
  next
    case (Error err)
    with a InTx s have "afterSetError E d2 err = (r, d')" by (simp add: put_def)
    then have "d_tx d' = d_tx d2" by (rule afterSetError_d_tx)
    with k show ?thesis by simp
  next
    case Panic
    with a InTx s k show ?thesis by (simp add: put_def)
  qed
qed

lemma decode_n_d_tx: "decode_n E n m k d = Some (r, d') \<Longrightarrow> d_tx d' = d_tx d"
proof (induction k arbitrary: d r d')
  case 0
  then show ?case by simp
next
  case (Suc k)
  show ?case
  proof (cases "ReadObject E n d")
    case None
    with Suc.prems show ?thesis by simp
  next
    case (Some p)
    obtain r1 d1 where p: "p = (r1, d1)" by (cases p)
    from Some p have k1: "d_tx d1 = d_tx d" by (simp add: ReadObject_d_tx)
    show ?thesis
    proof (cases r1)
      case (Ok obj)
      obtain r2 d2 where pt: "put E m d1 obj = (r2, d2)" by (cases "put E m d1 obj")
      then have k2: "d_tx d2 = d_tx d1" by (rule put_d_tx)
      show ?thesis
      proof (cases r2)
        case (Ok u)
        show ?thesis
        proof (cases "decode_n E n m k d2")
          case None
          with Suc.prems Some p \<open>r1 = Ok obj\<close> pt \<open>r2 = Ok u\<close> show ?thesis by simp
        next
          case (Some q)
          obtain r3 d3 where q: "q = (r3, d3)" by (cases q)
          from Some q have "d_tx d3 = d_tx d2" using Suc.IH [of d2 r3 d3] by simp
          moreover from Suc.prems \<open>ReadObject E n d = Some p\<close> p \<open>r1 = Ok obj\<close> pt \<open>r2 = Ok u\<close>
            Some q have "d' = d3" by (cases r3) simp_all
          ultimately show ?thesis using k1 k2 by simp
        qed
      next
        case (Error err)
        with Suc.prems Some p \<open>r1 = Ok obj\<close> pt k1 k2 show ?thesis by simp
      next
        case Panic
        with Suc.prems Some p \<open>r1 = Ok obj\<close> pt k1 k2 show ?thesis by simp
      qed
    next
      case (Error err)
      with Suc.prems Some p k1 show ?thesis by simp
    next
      case Panic
      with Suc.prems Some p k1 show ?thesis by simp
    qed
  qed
qed

lemma finish_d_tx:
  "finish E m x = Some (r, d') \<Longrightarrow> \<exists>r1 d1. x = Some (r1, d1) \<and> d_tx d' = d_tx d1"
  by (cases m)
    (auto simp: finish_def split: option.splits prod.splits res.splits dest: tx_Commit_d_tx)

lemma doDecode_decode_n:
  "doDecode E n d =
     (case Header E (d_s d) of
        (Inl err, s1) \<Rightarrow> Some (Error err, d\<lparr>d_s := s1\<rparr>)
      | (Inr (version, count), s1) \<Rightarrow>
          (case d_o d of
             None \<Rightarrow> finish E NoStore (decode_n E n NoStore (unat count) (d\<lparr>d_s := s1\<rparr>))
           | Some st \<Rightarrow>
               (if isTransactioner E then
                  (case Begin E st of
                     (tx, st') \<Rightarrow>
                       finish E (InTx tx)
                         (decode_n E n (InTx tx) (unat count) (d\<lparr>d_s := s1, d_o := Some st'\<rparr>)))
                else finish E Direct (decode_n E n Direct (unat count) (d\<lparr>d_s := s1\<rparr>)))))"
proof (cases "d_o d")
  case None
  then show ?thesis
    by (simp add: doDecode_def readObjects_def readObjects_from_decode_n
        split: prod.splits sum.splits)
next
  case (Some st)
  show ?thesis
  proof (cases "isTransactioner E")
    case True
    with Some show ?thesis
      by (simp add: doDecode_def readObjectsWithObjectStorerTx_def
          readObjectsWithObjectStorerTx_from_decode_n split: prod.splits sum.splits)
  next
    case False
    with Some show ?thesis
      by (simp add: doDecode_def readObjectsWithObjectStorer_def
          readObjectsWithObjectStorer_from_decode_n split: prod.splits sum.splits)
  qed
qed

lemma doDecode_d_tx: "doDecode E n d = Some (r, d') \<Longrightarrow> d_tx d' = d_tx d"
  unfolding doDecode_decode_n
  by (auto split: prod.splits sum.splits option.splits if_splits
      dest!: finish_d_tx dest: decode_n_d_tx)

lemma Decode_d_tx: "Decode E n d = Some (r, d') \<Longrightarrow> d_tx d' = d_tx d"
  by (auto simp: Decode_def split: option.splits prod.splits res.splits sum.splits
      dest: doDecode_d_tx)

text \<open>
  Claim C10. No operation of the decoder assigns the field \<^verbatim>\<open>tx\<close>: \<^verbatim>\<open>NewDecoder\<close> leaves
  it nil, and \<^verbatim>\<open>SetOffsets\<close>, \<^verbatim>\<open>ReadObject\<close>, \<^verbatim>\<open>ReadObjectAt\<close> and \<^verbatim>\<open>Decode\<close> return it
  as they found it, whatever they return. With a nil \<^verbatim>\<open>tx\<close> every path that calls a
  method on it panics: the transactional loop after a \<^verbatim>\<open>tx.SetObject\<close> that failed (the
  store is left as that call left it: no \<^verbatim>\<open>Rollback\<close> reaches it), \<^verbatim>\<open>recallByOffset\<close>
  on a non-seekable scanner with a known offset, and \<^verbatim>\<open>recallByHash\<close> when the scanner
  is not seekable or the hash has no offset.
\<close>

theorem d_tx_stays_nil:
  "(NewDecoder E s0 o0 = Inr d0 \<longrightarrow> d_tx d0 = None)
   \<and> d_tx (SetOffsets d m) = d_tx d
   \<and> (ReadObject E n d = Some (r, d1) \<longrightarrow> d_tx d1 = d_tx d)
   \<and> (ReadObjectAt E n off d = Some (r', d2) \<longrightarrow> d_tx d2 = d_tx d)
   \<and> (Decode E n d = Some (c, d3) \<longrightarrow> d_tx d3 = d_tx d)
   \<and> (d_tx d = None \<and> i < count \<and> ReadObject E n d = Some (Ok obj, d1)
        \<and> tx_SetObject E tx d1 obj = (Error err, d4) \<longrightarrow>
      readObjectsWithObjectStorerTx_from E n tx count i d = Some (Panic, d4))
   \<and> (d_tx d = None \<and> \<not> IsSeekable E \<and> offsetToHash d off = Some h \<longrightarrow>
      recallByOffset E n off d = Some (Panic, d))
   \<and> (d_tx d = None \<and> (\<not> IsSeekable E \<or> hashToOffset d h' = None) \<longrightarrow>
      recallByHash E n h' d = Some (Panic, d))"
proof -
  have a: "NewDecoder E s0 o0 = Inr d0 \<longrightarrow> d_tx d0 = None"
    by (auto simp: NewDecoder_def split: if_splits)
  have b: "d_tx (SetOffsets d m) = d_tx d" by (simp add: SetOffsets_def)
  have c: "readObjectsWithObjectStorerTx_from E n tx count i d = Some (Panic, d4)"
    if "d_tx d = None" "i < count" "ReadObject E n d = Some (Ok obj, d1)"
      "tx_SetObject E tx d1 obj = (Error err, d4)"
  proof -
    from that have "d_tx d4 = None"
      using ReadObject_d_tx tx_SetObject_d_tx by metis
    with that show ?thesis
      by (subst readObjectsWithObjectStorerTx_from.simps) (simp add: afterSetError_nil)
  qed
  have e: "recallByOffset E n off d = Some (Panic, d)"
    if "d_tx d = None" "\<not> IsSeekable E" "offsetToHash d off = Some h"
    using that by (simp add: recallByOffset_def recallByOffset_in_def d_tx_Object_def)
  have f: "recallByHash E n h' d = Some (Panic, d)"
    if "d_tx d = None" "\<not> IsSeekable E \<or> hashToOffset d h' = None"
    using that by (auto simp: recallByHash_def recallByHash_in_def d_tx_Object_def)
  from a b c e f ReadObject_d_tx ReadObjectAt_d_tx Decode_d_tx show ?thesis by blast
qed


theorem d_tx_stays_nil_witness:
  "NewDecoder (testEnv False True 2 blobPack) (testScanner 12 0) (Some (testStore 0))
     = Inr (freshDecoder (testScanner 12 0) (Some (testStore 0)))
   \<and> d_tx (freshDecoder (testScanner 12 0) (Some (testStore 0))
             :: (TScanner, TStore, unit) Decoder) = None
   \<and> ReadObject (testEnv False True 2 blobPack) 1
        (setOffset (freshDecoder (testScanner 12 0) (Some (testStore 0)))
           (97 # replicate 19 0) 12)
     = Some (Ok \<lparr>Type = BlobObject, Size = 1, Content = [97]\<rparr>,
             setCRC (setOffset (freshDecoder (testScanner 20 0) (Some (testStore 0)))
                       (97 # replicate 19 0) 12) (97 # replicate 19 0) 1)
   \<and> d_tx (setCRC (setOffset (freshDecoder (testScanner 20 0) (Some (testStore 0)))
                       (97 # replicate 19 0) 12) (97 # replicate 19 0) 1
             :: (TScanner, TStore, unit) Decoder)
     = d_tx (setOffset (freshDecoder (testScanner 12 0) (Some (testStore 0)))
               (97 # replicate 19 0) 12 :: (TScanner, TStore, unit) Decoder)
   \<and> ReadObjectAt (testEnv False True 2 blobPack) 1 12
        (setOffset (freshDecoder (testScanner 12 0) (Some (testStore 0)))
           (97 # replicate 19 0) 12)
     = Some (Error ErrNonSeekable,
             setOffset (freshDecoder (testScanner 12 0) (Some (testStore 0)))
               (97 # replicate 19 0) 12)
   \<and> Decode (testEnv False True 2 blobPack) 1
        (setOffset (freshDecoder (testScanner 12 0) (Some (testStore 0)))
           (97 # replicate 19 0) 12)
     = Some (Panic,
             setCRC (setOffset (freshDecoder (testScanner 20 0) (Some (testStore 0)))
                       (97 # replicate 19 0) 12) (97 # replicate 19 0) 1)
   \<and> (0::int) < 2
   \<and> tx_SetObject (testEnv False True 2 blobPack) ()
        (setCRC (setOffset (freshDecoder (testScanner 20 0) (Some (testStore 0)))
                   (97 # replicate 19 0) 12) (97 # replicate 19 0) 1)
        \<lparr>Type = BlobObject, Size = 1, Content = [97]\<rparr>
     = (Error (ErrExternal ''set failed''),
        setCRC (setOffset (freshDecoder (testScanner 20 0) (Some (testStore 0)))
                  (97 # replicate 19 0) 12) (97 # replicate 19 0) 1)
   \<and> readObjectsWithObjectStorerTx_from (testEnv False True 2 blobPack) 1 () 2 0
        (setOffset (freshDecoder (testScanner 12 0) (Some (testStore 0)))
           (97 # replicate 19 0) 12)
     = Some (Panic,
             setCRC (setOffset (freshDecoder (testScanner 20 0) (Some (testStore 0)))
                       (97 # replicate 19 0) 12) (97 # replicate 19 0) 1)
   \<and> \<not> IsSeekable (testEnv False True 2 blobPack)
   \<and> offsetToHash (setOffset (freshDecoder (testScanner 12 0) (Some (testStore 0)))
                     (97 # replicate 19 0) 12 :: (TScanner, TStore, unit) Decoder) 12
     = Some (97 # replicate 19 0)
   \<and> recallByOffset (testEnv False True 2 blobPack) 1 12
        (setOffset (freshDecoder (testScanner 12 0) (Some (testStore 0)))
           (97 # replicate 19 0) 12)
     = Some (Panic,
             setOffset (freshDecoder (testScanner 12 0) (Some (testStore 0)))
               (97 # replicate 19 0) 12)
   \<and> recallByHash (testEnv False True 2 blobPack) 1 (97 # replicate 19 0)
        (setOffset (freshDecoder (testScanner 12 0) (Some (testStore 0)))
           (97 # replicate 19 0) 12)
     = Some (Panic,
             setOffset (freshDecoder (testScanner 12 0) (Some (testStore 0)))
               (97 # replicate 19 0) 12)"
proof -
  let ?E = "testEnv False True 2 blobPack"
  let ?h = "97 # replicate 19 0 :: Hash"
  let ?blob = "\<lparr>Type = BlobObject, Size = 1, Content = [97]\<rparr>"
  let ?fresh = "freshDecoder (testScanner 12 0) (Some (testStore 0))
             :: (TScanner, TStore, unit) Decoder"
  let ?dec = "setOffset ?fresh ?h 12"
  let ?after = "setCRC (setOffset (freshDecoder (testScanner 20 0) (Some (testStore 0))) ?h 12) ?h 1
             :: (TScanner, TStore, unit) Decoder"
  have h1: "NewDecoder ?E (testScanner 12 0) (Some (testStore 0)) = Inr ?fresh"
    by (simp add: NewDecoder_def testEnv_simps)
  have h2: "ReadObject ?E 1 ?dec = Some (Ok ?blob, ?after)"
    by (simp add: decoder_defs testEnv_simps blobPack_def)
  have h3: "ReadObjectAt ?E 1 12 ?dec = Some (Error ErrNonSeekable, ?dec)"
    by (simp add: decoder_defs testEnv_simps blobPack_def)
  have h4: "tx_SetObject ?E () ?after ?blob = (Error (ErrExternal ''set failed''), ?after)"
    by (simp add: tx_SetObject_def setOffset_def setCRC_def testEnv_simps)
  have h5: "Decode ?E 1 ?dec = Some (Panic, ?after)"
    by (simp add: Decode_def doDecode_def readObjectsWithObjectStorerTx_def tx_SetObject_def
        readObjectsWithObjectStorerTx_from.simps afterSetError_def d_tx_Rollback_def
        decoder_defs testEnv_simps blobPack_def)
  have h6: "d_tx ?dec = None \<and> (0::int) < 2 \<and> \<not> IsSeekable ?E \<and> offsetToHash ?dec 12 = Some ?h"
    by (simp add: setOffset_def testEnv_simps)
  from h1 h2 h3 h4 h5 h6
    d_tx_stays_nil [where E = ?E and ?s0.0 = "testScanner 12 0" and ?o0.0 = "Some (testStore 0)"
      and ?d0.0 = ?fresh and d = ?dec and n = 1 and r = "Ok ?blob" and ?d1.0 = ?after and off = 12
      and r' = "Error ErrNonSeekable" and ?d2.0 = ?dec and c = Panic and ?d3.0 = ?after
      and i = 0 and count = 2 and obj = ?blob and tx = "()"
      and err = "ErrExternal ''set failed''" and ?d4.0 = ?after and h = ?h and h' = ?h]
  show ?thesis by blast
qed

subsection \<open>A failed \<^verbatim>\<open>SetObject\<close> in a transaction\<close>

text \<open>
  Claim C1 says that after a failed \<^verbatim>\<open>SetObject\<close> on the transaction the decoder rolls
  that transaction back and returns the error, the store seeing nothing of the pass.
  The code calls \<^verbatim>\<open>Rollback\<close> on the field \<^verbatim>\<open>d.tx\<close>, which is nil, and not on the local
  \<^verbatim>\<open>tx\<close> that \<^verbatim>\<open>Begin\<close> returned. Here a transactional store accepts one object and
  refuses the second of a pack of two blobs: \<^verbatim>\<open>Decode\<close> panics, the first blob is still
  staged in the transaction, and the store has seen no \<^verbatim>\<open>Rollback\<close>.
\<close>

theorem Decode_tx_set_failure:
  "Decode (testEnv False True 2 blobPack) 1
     (freshDecoder (testScanner 12 0) (Some (testStore 1)))
   = Some (Panic,
       setCRC (setOffset (setCRC (setOffset
         (freshDecoder (testScanner 28 0)
            (Some \<lparr>stored = [], staged = [\<lparr>Type = BlobObject, Size = 1, Content = [97]\<rparr>],
                   setsLeft = 0, rollbacks = 0\<rparr>))
         (97 # replicate 19 0) 12) (97 # replicate 19 0) 1)
         (97 # replicate 19 0) 20) (97 # replicate 19 0) 1)"
  by (simp add: Decode_def doDecode_def readObjectsWithObjectStorerTx_def tx_SetObject_def
      readObjectsWithObjectStorerTx_from.simps afterSetError_def d_tx_Rollback_def decoder_defs testEnv_simps blobPack_def)

subsection \<open>The base of an offset delta\<close>




end
